theory Spec2Isabelle
  imports Main "HOL-Library.Log_Nat"
begin

section \<open>Numbers of the source language\<close>

text \<open>
  The engine computes on ECMAScript numbers: IEEE 754 binary64 values with the two
  infinities and NaN. A finite value is kept as the rational it denotes. The two
  zeros are identified: the engine divides by literal constants only, compares with
  \<open><\<close> and tests truthiness, and none of these tells \<open>-0\<close> from \<open>+0\<close>.
  Every arithmetic operation rounds its exact result to the nearest binary64 value,
  ties to even, overflowing to an infinity (\<open>round64\<close>).
\<close>

datatype number = Fin rat | PosInf | NegInf | NaN

definition pow2 :: "int \<Rightarrow> rat" where
  "pow2 e = (if 0 \<le> e then 2 ^ nat e else 1 / 2 ^ nat (- e))"

text \<open>\<open>ilog2 x\<close> is the exponent \<open>e\<close> with \<open>2^e \<le> x < 2^(e+1)\<close>, for \<open>0 < x\<close>.\<close>

definition ilog2 :: "rat \<Rightarrow> int" where
  "ilog2 x =
     (if 1 \<le> x then int (floorlog 2 (nat \<lfloor>x\<rfloor>)) - 1
      else let k = int (floorlog 2 (nat \<lfloor>1 / x\<rfloor>))
           in if x = pow2 (1 - k) then 1 - k else - k)"

text \<open>Rounding to the nearest integer, ties to the even one.\<close>

definition rne :: "rat \<Rightarrow> int" where
  "rne x =
     (let f = \<lfloor>x\<rfloor>; d = x - of_int f
      in if d < 1 / 2 then f else if 1 / 2 < d then f + 1 else if even f then f else f + 1)"

text \<open>
  The binary64 value nearest to a rational: 53 significant bits, least exponent
  \<open>-1022\<close> (below it the spacing stays \<open>2^-1074\<close>), and an infinity from
  \<open>2^1024 - 2^970\<close> on.
\<close>

definition round64 :: "rat \<Rightarrow> number" where
  "round64 q =
     (if q = 0 then Fin 0
      else let e = max (ilog2 \<bar>q\<bar>) (- 1022);
               u = pow2 (e - 52);
               r = of_int (rne (\<bar>q\<bar> / u)) * u
           in if pow2 1024 \<le> r then (if 0 < q then PosInf else NegInf)
              else Fin (if 0 < q then r else - r))"

text \<open>A numeric literal of the source denotes the binary64 value nearest to it.\<close>

definition lit :: "rat \<Rightarrow> number" where
  "lit q = round64 q"

fun fneg :: "number \<Rightarrow> number" where
  "fneg (Fin a) = Fin (- a)"
| "fneg PosInf = NegInf"
| "fneg NegInf = PosInf"
| "fneg NaN = NaN"

fun fadd :: "number \<Rightarrow> number \<Rightarrow> number" where
  "fadd NaN _ = NaN"
| "fadd _ NaN = NaN"
| "fadd (Fin a) (Fin b) = round64 (a + b)"
| "fadd PosInf NegInf = NaN"
| "fadd NegInf PosInf = NaN"
| "fadd PosInf _ = PosInf"
| "fadd NegInf _ = NegInf"
| "fadd (Fin a) PosInf = PosInf"
| "fadd (Fin a) NegInf = NegInf"

definition fsub :: "number \<Rightarrow> number \<Rightarrow> number" where
  "fsub x y = fadd x (fneg y)"

text \<open>The sign of an infinite product or quotient.\<close>

definition signed_inf :: "bool \<Rightarrow> number" where
  "signed_inf neg = (if neg then NegInf else PosInf)"

fun fmul :: "number \<Rightarrow> number \<Rightarrow> number" where
  "fmul NaN _ = NaN"
| "fmul _ NaN = NaN"
| "fmul (Fin a) (Fin b) = round64 (a * b)"
| "fmul (Fin a) PosInf = (if a = 0 then NaN else signed_inf (a < 0))"
| "fmul (Fin a) NegInf = (if a = 0 then NaN else signed_inf (0 < a))"
| "fmul PosInf (Fin b) = (if b = 0 then NaN else signed_inf (b < 0))"
| "fmul NegInf (Fin b) = (if b = 0 then NaN else signed_inf (0 < b))"
| "fmul PosInf PosInf = PosInf"
| "fmul PosInf NegInf = NegInf"
| "fmul NegInf PosInf = NegInf"
| "fmul NegInf NegInf = PosInf"

text \<open>
  Division. Every divisor of the engine is a nonzero literal; a zero divisor is read
  as \<open>+0\<close>.
\<close>

fun fdiv :: "number \<Rightarrow> number \<Rightarrow> number" where
  "fdiv NaN _ = NaN"
| "fdiv _ NaN = NaN"
| "fdiv (Fin a) (Fin b) =
     (if b = 0 then (if a = 0 then NaN else signed_inf (a < 0)) else round64 (a / b))"
| "fdiv (Fin a) PosInf = Fin 0"
| "fdiv (Fin a) NegInf = Fin 0"
| "fdiv PosInf (Fin b) = signed_inf (b < 0)"
| "fdiv NegInf (Fin b) = signed_inf (0 \<le> b)"
| "fdiv PosInf _ = NaN"
| "fdiv NegInf _ = NaN"

text \<open>The comparison \<open>x < y\<close>: false as soon as one side is NaN.\<close>

fun flt :: "number \<Rightarrow> number \<Rightarrow> bool" where
  "flt NaN _ = False"
| "flt _ NaN = False"
| "flt (Fin a) (Fin b) = (a < b)"
| "flt (Fin a) PosInf = True"
| "flt (Fin a) NegInf = False"
| "flt PosInf _ = False"
| "flt NegInf NegInf = False"
| "flt NegInf _ = True"

text \<open>
  \<open>Math.round\<close>: the nearest integer, a tie going up; infinities and NaN are kept.
  The result of a binary64 argument is again a binary64 value, so nothing is rounded
  a second time.
\<close>

fun round_js :: "number \<Rightarrow> number" where
  "round_js (Fin a) = Fin (of_int \<lfloor>a + 1 / 2\<rfloor>)"
| "round_js x = x"

text \<open>Truthiness of a number: zero and NaN are falsy.\<close>

fun truthy :: "number \<Rightarrow> bool" where
  "truthy (Fin a) = (a \<noteq> 0)"
| "truthy NaN = False"
| "truthy _ = True"

text \<open>
  An optional field (\<open>x?: number\<close>) is a \<open>number option\<close>, \<open>None\<close> being
  \<open>undefined\<close>. \<open>!x\<close> holds of \<open>undefined\<close> and of a falsy number; \<open>x != null\<close>
  holds of every number. Arithmetic on \<open>undefined\<close> converts it to NaN first; a
  non-null assertion \<open>x!\<close> is erased by the compiler and checks nothing.
\<close>

fun falsy_opt :: "number option \<Rightarrow> bool" where
  "falsy_opt None = True"
| "falsy_opt (Some x) = (\<not> truthy x)"

fun to_number :: "number option \<Rightarrow> number" where
  "to_number None = NaN"
| "to_number (Some x) = x"

section \<open>Data model (src/types/nutrition.ts)\<close>

datatype Sex = Male | Female
datatype UnitSystem = US | Metric
datatype BodyFatMode = Known | Unknown

record DexaInput =
  enabled :: bool
  fatMassKg :: "number option"
  leanMassKg :: "number option"

record Height =
  cm :: "number option"
  inches :: "number option"

record Weight =
  kg :: "number option"
  lb :: "number option"

record Activity =
  preset :: "number option"
  useCustom :: bool
  customMultiplier :: "number option"

record Deltas =
  cut :: number
  bulk :: number
  recomp :: number

record ProfileInput =
  unitSystem :: UnitSystem
  sex :: Sex
  ageYears :: number
  height :: Height
  weight :: Weight
  bodyFatMode :: BodyFatMode
  bodyFatPercent :: "number option"
  activity :: Activity
  deltas :: Deltas
  bulkProteinGPerLb :: number
  dexa :: DexaInput

section \<open>Result types (the engine's own declarations)\<close>

record BmrMethods =
  mifflin :: "number option"
  revisedHarrisBenedict :: "number option"
  katchMcArdle :: "number option"
  nelson :: "number option"
  muller :: "number option"

record BmrBreakdown =
  recommendedBmr :: number
  methods :: BmrMethods

record MacroTargets =
  calories :: number
  proteinG :: number
  fatG :: number
  carbsG :: number

record Results =
  bmr :: BmrBreakdown
  tdee :: number
  maintenance :: MacroTargets
  cut :: MacroTargets
  bulk :: MacroTargets
  recomp :: MacroTargets
  warnings :: "string list"

section \<open>The calculation engine\<close>

subsection \<open>Helpers\<close>

definition lbToKg :: "number \<Rightarrow> number" where
  "lbToKg x = fmul x (lit (45359237 / 100000000))"

definition inToCm :: "number \<Rightarrow> number" where
  "inToCm x = fmul x (lit (254 / 100))"

subsection \<open>The constants of \<open>calculateAll\<close>, in the order of the source\<close>

text \<open>
  \<open>calculateAll\<close> is one function whose body binds a sequence of constants. Each
  binding is a definition here, a function of the input, so that a statement can name
  an intermediate value (the unrounded \<open>tdee\<close>, the resolved masses).
\<close>

definition weightKg_of :: "ProfileInput \<Rightarrow> number" where
  "weightKg_of input =
     (if unitSystem input = US then lbToKg (to_number (lb (weight input)))
      else to_number (kg (weight input)))"

definition weightLb_of :: "ProfileInput \<Rightarrow> number" where
  "weightLb_of input = fdiv (weightKg_of input) (lit (45359237 / 100000000))"

definition heightCm_of :: "ProfileInput \<Rightarrow> number" where
  "heightCm_of input =
     (if unitSystem input = US then inToCm (to_number (inches (height input)))
      else to_number (cm (height input)))"

definition sexFactor_of :: "ProfileInput \<Rightarrow> number" where
  "sexFactor_of input = (if sex input = Male then lit 5 else lit (- 161))"

text \<open>
  Body composition: the pair \<open>(fatMassKg, leanMassKg)\<close> after the two \<open>if\<close>
  statements. The second test is on truthiness (\<open>!fatMassKg || !leanMassKg\<close>).
\<close>

definition bodyComposition :: "ProfileInput \<Rightarrow> number option \<times> number option" where
  "bodyComposition input =
     (let (fat0, lean0) =
            (if enabled (dexa input)
             then (fatMassKg (dexa input), leanMassKg (dexa input))
             else (None, None))
      in if (falsy_opt fat0 \<or> falsy_opt lean0) \<and> bodyFatMode input = Known
            \<and> bodyFatPercent input \<noteq> None
         then (let fat1 = fmul (weightKg_of input)
                               (fdiv (to_number (bodyFatPercent input)) (lit 100))
               in (Some fat1, Some (fsub (weightKg_of input) fat1)))
         else (fat0, lean0))"

definition mifflin_of :: "ProfileInput \<Rightarrow> number" where
  "mifflin_of input =
     fadd (fsub (fadd (fmul (lit 10) (weightKg_of input))
                      (fmul (lit (625 / 100)) (heightCm_of input)))
                (fmul (lit 5) (ageYears input)))
          (sexFactor_of input)"

definition revisedHarrisBenedict_of :: "ProfileInput \<Rightarrow> number" where
  "revisedHarrisBenedict_of input =
     (if sex input = Male
      then fsub (fadd (fadd (lit (88362 / 1000)) (fmul (lit (13397 / 1000)) (weightKg_of input)))
                      (fmul (lit (4799 / 1000)) (heightCm_of input)))
                (fmul (lit (5677 / 1000)) (ageYears input))
      else fsub (fadd (fadd (lit (447593 / 1000)) (fmul (lit (9247 / 1000)) (weightKg_of input)))
                      (fmul (lit (3098 / 1000)) (heightCm_of input)))
                (fmul (lit (433 / 100)) (ageYears input)))"

definition katchMcArdle_of :: "ProfileInput \<Rightarrow> number option" where
  "katchMcArdle_of input =
     (case snd (bodyComposition input) of
        Some lean \<Rightarrow> Some (fadd (lit 370) (fmul (lit (216 / 10)) lean))
      | None \<Rightarrow> None)"

definition nelson_of :: "ProfileInput \<Rightarrow> number option" where
  "nelson_of input =
     (case bodyComposition input of
        (Some fat, Some lean) \<Rightarrow>
          Some (fadd (fmul (lit (258 / 10)) lean) (fmul (lit (404 / 100)) fat))
      | _ \<Rightarrow> None)"

definition muller_of :: "ProfileInput \<Rightarrow> number option" where
  "muller_of input =
     (case bodyComposition input of
        (Some fat, Some lean) \<Rightarrow>
          Some (fadd (fadd (fmul (lit (13587 / 1000)) lean) (fmul (lit (9613 / 1000)) fat))
                     (lit 198))
      | _ \<Rightarrow> None)"

definition recommendedBmr_of :: "ProfileInput \<Rightarrow> number" where
  "recommendedBmr_of input =
     (case katchMcArdle_of input of
        Some k \<Rightarrow>
          if bodyFatMode input = Known then k
          else fdiv (fadd (mifflin_of input) (revisedHarrisBenedict_of input)) (lit 2)
      | None \<Rightarrow> fdiv (fadd (mifflin_of input) (revisedHarrisBenedict_of input)) (lit 2))"

definition activityMultiplier_of :: "ProfileInput \<Rightarrow> number" where
  "activityMultiplier_of input =
     (if useCustom (activity input) then to_number (customMultiplier (activity input))
      else to_number (preset (activity input)))"

definition tdee_of :: "ProfileInput \<Rightarrow> number" where
  "tdee_of input = fmul (recommendedBmr_of input) (activityMultiplier_of input)"

subsection \<open>Macro calculations\<close>

text \<open>
  \<open>makeMacros\<close> is a closure over the array \<open>warnings\<close>, to which it may push one
  entry. The array is passed in and returned.
\<close>

definition makeMacros ::
  "string list \<Rightarrow> number \<Rightarrow> number \<Rightarrow> number \<Rightarrow> MacroTargets \<times> string list" where
  "makeMacros ws cal prot fatPercent =
     (let fatCalories = fmul cal fatPercent;
          fat = fdiv fatCalories (lit 9);
          ws' = (if flt fat (lit 50) then ws @ [''Fat intake is below 50 g/day.''] else ws);
          remainingCalories = fsub (fsub cal (fmul prot (lit 4))) (fmul fat (lit 9));
          carbs = fdiv remainingCalories (lit 4)
      in (\<lparr>calories = round_js cal, proteinG = round_js prot,
           fatG = round_js fat, carbsG = round_js carbs\<rparr>, ws'))"

text \<open>The option written by \<open>x ? round(x) : undefined\<close>.\<close>

definition round_if_truthy :: "number option \<Rightarrow> number option" where
  "round_if_truthy x = (if falsy_opt x then None else Some (round_js (to_number x)))"

definition calculateAll :: "ProfileInput \<Rightarrow> Results" where
  "calculateAll input =
     (let warnings0 = [];
          weightLb = weightLb_of input;
          t = tdee_of input;
          (maintenance1, warnings1) =
             makeMacros warnings0 t (fmul weightLb (lit 1)) (lit (25 / 100));
          (cut1, warnings2) =
             makeMacros warnings1 (fadd t (Deltas.cut (deltas input)))
               (fmul weightLb (lit 1)) (lit (25 / 100));
          (recomp1, warnings3) =
             makeMacros warnings2 (fadd t (Deltas.recomp (deltas input)))
               (fmul weightLb (lit 1)) (lit (2 / 10));
          bulkProtein = fmul weightLb (bulkProteinGPerLb input);
          (bulk1, warnings4) =
             makeMacros warnings3 (fadd t (Deltas.bulk (deltas input)))
               bulkProtein (lit (3 / 10))
      in \<lparr>bmr = \<lparr>recommendedBmr = round_js (recommendedBmr_of input),
                 methods = \<lparr>mifflin = Some (round_js (mifflin_of input)),
                            revisedHarrisBenedict = Some (round_js (revisedHarrisBenedict_of input)),
                            katchMcArdle = round_if_truthy (katchMcArdle_of input),
                            nelson = round_if_truthy (nelson_of input),
                            muller = round_if_truthy (muller_of input)\<rparr>\<rparr>,
          tdee = round_js t,
          maintenance = maintenance1,
          cut = cut1,
          bulk = bulk1,
          recomp = recomp1,
          warnings = warnings4\<rparr>)"

subsection \<open>The stub of src/lib/calcs.ts and the page component\<close>

datatype error = Error string

text \<open>\<open>calculateAll\<close> of src/lib/calcs.ts: its body is a single \<open>throw\<close>.\<close>

definition calculateAll_lib :: "ProfileInput \<Rightarrow> error + Results" where
  "calculateAll_lib input = Inl (Error ''Not implemented yet'')"

text \<open>
  The \<open>useMemo\<close> body of the page component, over the \<open>calculateAll\<close> it imports:
  \<open>null\<close> without an input, and \<open>null\<close> when the call throws.
\<close>

definition Home_results ::
  "(ProfileInput \<Rightarrow> error + Results) \<Rightarrow> ProfileInput option \<Rightarrow> Results option" where
  "Home_results calc input =
     (case input of
        None \<Rightarrow> None
      | Some i \<Rightarrow> (case calc i of Inr r \<Rightarrow> Some r | Inl _ \<Rightarrow> None))"

section \<open>Inputs the form hands over (src/lib/schema.ts)\<close>

text \<open>
  What \<open>profileFormSchema\<close> accepts and \<open>toProfileInput\<close> then builds: the fields of
  the selected unit system are positive numbers and the others are left out; the age
  is a positive whole number; a known body-fat percentage is clamped to \<open>[0, 80]\<close>;
  the selected activity source is a finite number; with DEXA enabled at least one mass
  is a positive number; the bulk protein target lies in \<open>[0.7, 1.0]\<close>.
\<close>

fun is_finite :: "number \<Rightarrow> bool" where
  "is_finite (Fin a) = True"
| "is_finite _ = False"

fun is_positive :: "number option \<Rightarrow> bool" where
  "is_positive (Some (Fin a)) = (0 < a)"
| "is_positive _ = False"

fun is_finite_opt :: "number option \<Rightarrow> bool" where
  "is_finite_opt (Some x) = is_finite x"
| "is_finite_opt None = False"

fun is_positive_int :: "number \<Rightarrow> bool" where
  "is_positive_int (Fin a) = (0 < a \<and> of_int \<lfloor>a\<rfloor> = a)"
| "is_positive_int _ = False"

fun is_percent :: "number option \<Rightarrow> bool" where
  "is_percent (Some (Fin a)) = (0 \<le> a \<and> a \<le> 80)"
| "is_percent _ = False"

definition valid_profile :: "ProfileInput \<Rightarrow> bool" where
  "valid_profile p =
     (is_positive_int (ageYears p)
      \<and> (if unitSystem p = US
          then is_positive (inches (height p)) \<and> is_positive (lb (weight p))
               \<and> cm (height p) = None \<and> kg (weight p) = None
          else is_positive (cm (height p)) \<and> is_positive (kg (weight p))
               \<and> inches (height p) = None \<and> lb (weight p) = None)
      \<and> (if bodyFatMode p = Known then is_percent (bodyFatPercent p)
          else bodyFatPercent p = None)
      \<and> (if useCustom (activity p)
          then is_finite_opt (customMultiplier (activity p)) \<and> preset (activity p) = None
          else is_finite_opt (preset (activity p)) \<and> customMultiplier (activity p) = None)
      \<and> is_finite (Deltas.cut (deltas p)) \<and> is_finite (Deltas.bulk (deltas p))
      \<and> is_finite (Deltas.recomp (deltas p))
      \<and> is_finite (bulkProteinGPerLb p)
      \<and> \<not> flt (bulkProteinGPerLb p) (lit (7 / 10)) \<and> \<not> flt (lit 1) (bulkProteinGPerLb p)
      \<and> (if enabled (dexa p)
          then (is_positive (fatMassKg (dexa p)) \<or> is_positive (leanMassKg (dexa p)))
               \<and> (fatMassKg (dexa p) = None \<or> is_finite_opt (fatMassKg (dexa p)))
               \<and> (leanMassKg (dexa p) = None \<or> is_finite_opt (leanMassKg (dexa p)))
          else fatMassKg (dexa p) = None \<and> leanMassKg (dexa p) = None))"

section \<open>The specification's reading of the engine\<close>

text \<open>
  The macro sub-routine in the specification's words: \<open>fatG = calories * fatFraction / 9\<close>,
  \<open>carbsG = (calories - proteinG*4 - fatG*9) / 4\<close>, the four fields rounded at the end.
\<close>

definition computeMacros :: "number \<Rightarrow> number \<Rightarrow> number \<Rightarrow> MacroTargets" where
  "computeMacros cal prot fatFraction =
     \<lparr>calories = round_js cal,
      proteinG = round_js prot,
      fatG = round_js (fdiv (fmul cal fatFraction) (lit 9)),
      carbsG = round_js (fdiv (fsub (fsub cal (fmul prot (lit 4)))
                                    (fmul (fdiv (fmul cal fatFraction) (lit 9)) (lit 9)))
                              (lit 4))\<rparr>"

text \<open>The fat grams of a goal before rounding (\<open>fatG\<close> inside \<open>makeMacros\<close>).\<close>

definition fatG_raw :: "number \<Rightarrow> number \<Rightarrow> number" where
  "fatG_raw cal fatFraction = fdiv (fmul cal fatFraction) (lit 9)"

text \<open>
  The four goals in evaluation order (maintenance, cut, recomp, bulk), each with its
  calorie base and fat fraction.
\<close>

definition goal_table :: "ProfileInput \<Rightarrow> (number \<times> number) list" where
  "goal_table p =
     [(tdee_of p, lit (25 / 100)),
      (fadd (tdee_of p) (Deltas.cut (deltas p)), lit (25 / 100)),
      (fadd (tdee_of p) (Deltas.recomp (deltas p)), lit (2 / 10)),
      (fadd (tdee_of p) (Deltas.bulk (deltas p)), lit (3 / 10))]"

text \<open>
  Body-composition resolution as the specification orders it: DEXA when enabled with
  both masses present, else the body-fat percentage when known and present, else
  nothing.
\<close>

definition spec_bodyComposition :: "ProfileInput \<Rightarrow> number option \<times> number option" where
  "spec_bodyComposition p =
     (if enabled (dexa p) \<and> fatMassKg (dexa p) \<noteq> None \<and> leanMassKg (dexa p) \<noteq> None
      then (fatMassKg (dexa p), leanMassKg (dexa p))
      else if bodyFatMode p = Known \<and> bodyFatPercent p \<noteq> None
      then (Some (fmul (weightKg_of p) (fdiv (to_number (bodyFatPercent p)) (lit 100))),
            Some (fsub (weightKg_of p)
                       (fmul (weightKg_of p) (fdiv (to_number (bodyFatPercent p)) (lit 100)))))
      else (None, None))"

section \<open>Example profiles\<close>

text \<open>
  The form's defaults: male, 30 years, US units, 180 lb, 70 in, body fat unknown,
  activity preset 1.55, deltas -500 / +500 / -200, bulk protein 1.0 g/lb, no DEXA.
\<close>

definition profile_default :: ProfileInput where
  "profile_default =
     \<lparr>unitSystem = US, sex = Male, ageYears = Fin 30,
      height = \<lparr>cm = None, inches = Some (Fin 70)\<rparr>,
      weight = \<lparr>kg = None, lb = Some (Fin 180)\<rparr>,
      bodyFatMode = Unknown, bodyFatPercent = None,
      activity = \<lparr>preset = Some (lit (155 / 100)), useCustom = False,
                  customMultiplier = None\<rparr>,
      deltas = \<lparr>Deltas.cut = Fin (- 500), Deltas.bulk = Fin 500, Deltas.recomp = Fin (- 200)\<rparr>,
      bulkProteinGPerLb = Fin 1,
      dexa = \<lparr>enabled = False, fatMassKg = None, leanMassKg = None\<rparr>\<rparr>"

text \<open>The default profile with a DEXA scan giving both masses, body fat still unknown.\<close>

definition profile_dexa_both :: ProfileInput where
  "profile_dexa_both =
     profile_default\<lparr>dexa := \<lparr>enabled = True, fatMassKg = Some (Fin 16),
                                leanMassKg = Some (Fin 64)\<rparr>\<rparr>"

text \<open>The default profile with a DEXA scan giving the lean mass only.\<close>

definition profile_dexa_lean_only :: ProfileInput where
  "profile_dexa_lean_only =
     profile_default\<lparr>dexa := \<lparr>enabled = True, fatMassKg = None,
                                leanMassKg = Some (Fin 60)\<rparr>\<rparr>"

text \<open>The default profile with a known body fat of 20 percent.\<close>

definition profile_known :: ProfileInput where
  "profile_known =
     profile_default\<lparr>bodyFatMode := Known, bodyFatPercent := Some (Fin 20)\<rparr>"

text \<open>
  The default profile with a DEXA scan whose masses make Nelson's formula cancel:
  lean 4.04 kg, fat -25.8 kg. The form accepts it, one mass being positive.
\<close>

definition profile_dexa_cancel :: ProfileInput where
  "profile_dexa_cancel =
     profile_default\<lparr>dexa := \<lparr>enabled = True, fatMassKg = Some (fneg (lit (258 / 10))),
                                leanMassKg = Some (lit (404 / 100))\<rparr>\<rparr>"

text \<open>The default profile with a DEXA scan reporting both masses as zero.\<close>

definition profile_dexa_zero :: ProfileInput where
  "profile_dexa_zero =
     profile_default\<lparr>dexa := \<lparr>enabled = True, fatMassKg = Some (Fin 0),
                                leanMassKg = Some (Fin 0)\<rparr>\<rparr>"

text \<open>The default profile without its weight, without its height, without an activity source.\<close>

definition profile_no_weight :: ProfileInput where
  "profile_no_weight = profile_default\<lparr>weight := \<lparr>kg = None, lb = None\<rparr>\<rparr>"

definition profile_no_height :: ProfileInput where
  "profile_no_height = profile_default\<lparr>height := \<lparr>cm = None, inches = None\<rparr>\<rparr>"

definition profile_no_activity :: ProfileInput where
  "profile_no_activity =
     profile_default\<lparr>activity := \<lparr>preset = None, useCustom = False,
                                     customMultiplier = None\<rparr>\<rparr>"

text \<open>The default profile at 114.5 lb.\<close>

definition profile_114_5_lb :: ProfileInput where
  "profile_114_5_lb = profile_default\<lparr>weight := \<lparr>kg = None, lb = Some (Fin (229 / 2))\<rparr>\<rparr>"

text \<open>
  A known body fat of 20 percent together with a DEXA scan reporting zero fat mass and
  60 kg of lean mass.
\<close>

definition profile_dexa_zero_fat_known :: ProfileInput where
  "profile_dexa_zero_fat_known =
     profile_known\<lparr>dexa := \<lparr>enabled = True, fatMassKg = Some (Fin 0),
                              leanMassKg = Some (Fin 60)\<rparr>\<rparr>"

section \<open>Evaluation and basic facts\<close>

lemma floor_rat_numeral [simp]:
  "\<lfloor>(numeral a :: rat) / numeral b\<rfloor> = numeral a div numeral b"
  by (metis floor_divide_of_int_eq of_int_numeral)

lemma floor_rat_minus_numeral [simp]:
  "\<lfloor>- ((numeral a :: rat) / numeral b)\<rfloor> = - numeral a div numeral b"
  by (metis floor_divide_of_int_eq minus_divide_left of_int_minus of_int_numeral)

lemmas number_eval =
  round64_def ilog2_def pow2_def rne_def compute_floorlog Let_def lit_def

lemma fadd_NaN_right [simp]: "fadd x NaN = NaN"
  by (cases x) simp_all

lemma fmul_NaN_right [simp]: "fmul x NaN = NaN"
  by (cases x) simp_all

lemma fdiv_NaN_right [simp]: "fdiv x NaN = NaN"
  by (cases x) simp_all

lemma fsub_NaN [simp]: "fsub NaN y = NaN" "fsub x NaN = NaN"
  by (simp_all add: fsub_def)

lemma makeMacros_fst: "fst (makeMacros ws cal prot ff) = computeMacros cal prot ff"
  by (simp add: makeMacros_def computeMacros_def Let_def)

lemma makeMacros_snd:
  "snd (makeMacros ws cal prot ff) =
     ws @ (if flt (fatG_raw cal ff) (lit 50) then [''Fat intake is below 50 g/day.''] else [])"
  by (simp add: makeMacros_def fatG_raw_def Let_def)

lemma valid_profile_default: "valid_profile profile_default"
  by (simp add: valid_profile_def profile_default_def number_eval)

section \<open>The stub in src/lib/calcs.ts\<close>

text \<open>
  C8. For every ProfileInput, the \<open>calculateAll\<close> exported by src/lib/calcs.ts, the one
  the page component imports and wraps in a try/catch, throws an Error and returns no
  Results; the page's results are therefore always \<open>null\<close>, and the stub is not
  extensionally equal to the engine of the same signature.
\<close>

theorem calcs_stub_always_throws:
  "calculateAll_lib p = Inl (Error ''Not implemented yet'')
   \<and> calculateAll_lib p \<noteq> Inr (calculateAll p)
   \<and> Home_results calculateAll_lib i = None
   \<and> calculateAll_lib \<noteq> (\<lambda>q. Inr (calculateAll q))"
proof -
  have "calculateAll_lib p \<noteq> (\<lambda>q. Inr (calculateAll q)) p"
    by (simp add: calculateAll_lib_def)
  then have "calculateAll_lib \<noteq> (\<lambda>q. Inr (calculateAll q))"
    by metis
  moreover have "Home_results calculateAll_lib i = None"
    by (cases i) (simp_all add: Home_results_def calculateAll_lib_def)
  ultimately show ?thesis
    by (simp add: calculateAll_lib_def)
qed

section \<open>Macro split\<close>

lemma calculateAll_maintenance:
  "maintenance (calculateAll p) =
     fst (makeMacros [] (tdee_of p) (fmul (weightLb_of p) (lit 1)) (lit (25 / 100)))"
  by (simp add: calculateAll_def Let_def case_prod_beta)

lemma calculateAll_cut:
  "cut (calculateAll p) =
     computeMacros (fadd (tdee_of p) (Deltas.cut (deltas p)))
       (fmul (weightLb_of p) (lit 1)) (lit (25 / 100))"
  by (simp add: calculateAll_def Let_def case_prod_beta makeMacros_fst)

lemma calculateAll_recomp:
  "recomp (calculateAll p) =
     computeMacros (fadd (tdee_of p) (Deltas.recomp (deltas p)))
       (fmul (weightLb_of p) (lit 1)) (lit (2 / 10))"
  by (simp add: calculateAll_def Let_def case_prod_beta makeMacros_fst)

lemma calculateAll_bulk:
  "bulk (calculateAll p) =
     computeMacros (fadd (tdee_of p) (Deltas.bulk (deltas p)))
       (fmul (weightLb_of p) (bulkProteinGPerLb p)) (lit (3 / 10))"
  by (simp add: calculateAll_def Let_def case_prod_beta makeMacros_fst)

lemma calculateAll_warnings:
  "warnings (calculateAll p) =
     concat (map (\<lambda>(cal, ff). if flt (fatG_raw cal ff) (lit 50)
                                then [''Fat intake is below 50 g/day.''] else [])
                 (goal_table p))"
  by (simp add: calculateAll_def Let_def case_prod_beta makeMacros_snd goal_table_def)

text \<open>
  C2. Each of the four goal outputs is the shared macro sub-routine applied to the
  calorie base, protein grams and fat fraction of the goal table: maintenance
  \<open>(tdee, weightLb * 1.0, 0.25)\<close>, cut \<open>(tdee + deltas.cut, weightLb * 1.0, 0.25)\<close>,
  recomp \<open>(tdee + deltas.recomp, weightLb * 1.0, 0.20)\<close>, bulk
  \<open>(tdee + deltas.bulk, weightLb * bulkProteinGPerLb, 0.30)\<close>, where \<open>tdee\<close> and
  \<open>weightLb\<close> are the unrounded values and the sub-routine rounds its four fields
  independently at the end.
\<close>

theorem goals_are_computeMacros:
  "maintenance (calculateAll p) =
     computeMacros (tdee_of p) (fmul (weightLb_of p) (lit 1)) (lit (25 / 100))
   \<and> cut (calculateAll p) =
     computeMacros (fadd (tdee_of p) (Deltas.cut (deltas p)))
       (fmul (weightLb_of p) (lit 1)) (lit (25 / 100))
   \<and> recomp (calculateAll p) =
     computeMacros (fadd (tdee_of p) (Deltas.recomp (deltas p)))
       (fmul (weightLb_of p) (lit 1)) (lit (2 / 10))
   \<and> bulk (calculateAll p) =
     computeMacros (fadd (tdee_of p) (Deltas.bulk (deltas p)))
       (fmul (weightLb_of p) (bulkProteinGPerLb p)) (lit (3 / 10))"
  by (simp only: calculateAll_maintenance makeMacros_fst calculateAll_cut
        calculateAll_recomp calculateAll_bulk)

text \<open>
  C5. The literal string \<open>Fat intake is below 50 g/day.\<close> is appended once per goal
  whose fat grams before rounding are strictly below 50, in the order maintenance, cut,
  recomp, bulk; the warnings hold nothing else, so their number is the number of such
  goals, at most 4.
\<close>

theorem warnings_one_per_low_fat_goal:
  "warnings (calculateAll p) =
     map (\<lambda>g. ''Fat intake is below 50 g/day.'')
         (filter (\<lambda>(cal, ff). flt (fatG_raw cal ff) (lit 50)) (goal_table p))
   \<and> length (warnings (calculateAll p)) =
     length (filter (\<lambda>(cal, ff). flt (fatG_raw cal ff) (lit 50)) (goal_table p))
   \<and> length (warnings (calculateAll p)) \<le> 4"
proof -
  have eq: "warnings (calculateAll p) =
     map (\<lambda>g. ''Fat intake is below 50 g/day.'')
         (filter (\<lambda>(cal, ff). flt (fatG_raw cal ff) (lit 50)) (goal_table p))"
    unfolding calculateAll_warnings by (simp add: goal_table_def)
  have "length (filter (\<lambda>(cal, ff). flt (fatG_raw cal ff) (lit 50)) (goal_table p))
          \<le> length (goal_table p)"
    by (rule length_filter_le)
  then have "length (filter (\<lambda>(cal, ff). flt (fatG_raw cal ff) (lit 50)) (goal_table p)) \<le> 4"
    by (simp add: goal_table_def)
  with eq show ?thesis by simp
qed

text \<open>
  C6. The macro sub-routine never clamps and never raises on negative carbohydrates:
  for every calorie base, protein value and fat fraction it returns a record whose
  \<open>carbsG\<close> is the rounded value of \<open>(calories - proteinG*4 - fatG*9) / 4\<close> as it is;
  900 kcal with 300 g of protein at a fat fraction of 0.25 gives \<open>-131\<close>.
\<close>

theorem makeMacros_negative_carbs_kept:
  "carbsG (fst (makeMacros ws cal prot ff)) =
     round_js (fdiv (fsub (fsub cal (fmul prot (lit 4))) (fmul (fatG_raw cal ff) (lit 9)))
                    (lit 4))
   \<and> carbsG (fst (makeMacros [] (Fin 900) (Fin 300) (lit (25 / 100)))) = Fin (- 131)"
proof -
  have "carbsG (fst (makeMacros [] (Fin 900) (Fin 300) (lit (25 / 100)))) = Fin (- 131)"
    by (simp add: makeMacros_def fsub_def number_eval)
  then show ?thesis
    by (simp add: makeMacros_fst computeMacros_def fatG_raw_def)
qed

section \<open>BMR and TDEE\<close>

lemma calculateAll_recommendedBmr:
  "recommendedBmr (bmr (calculateAll p)) = round_js (recommendedBmr_of p)"
  by (simp add: calculateAll_def Let_def case_prod_beta)

lemma calculateAll_tdee: "tdee (calculateAll p) = round_js (tdee_of p)"
  by (simp add: calculateAll_def Let_def case_prod_beta)

lemma calculateAll_methods:
  "methods (bmr (calculateAll p)) =
     \<lparr>mifflin = Some (round_js (mifflin_of p)),
      revisedHarrisBenedict = Some (round_js (revisedHarrisBenedict_of p)),
      katchMcArdle = round_if_truthy (katchMcArdle_of p),
      nelson = round_if_truthy (nelson_of p),
      muller = round_if_truthy (muller_of p)\<rparr>"
  by (simp add: calculateAll_def Let_def case_prod_beta)

lemma mifflin_default: "mifflin_of profile_default = Fin (3920234526984825 / 2199023255552)"
  by (simp add: profile_default_def mifflin_of_def weightKg_of_def heightCm_of_def
        sexFactor_of_def lbToKg_def inToCm_def fsub_def number_eval)

lemma revisedHarrisBenedict_default:
  "revisedHarrisBenedict_of profile_default = Fin (64085518204655 / 34359738368)"
  by (simp add: profile_default_def revisedHarrisBenedict_of_def weightKg_of_def
        heightCm_of_def lbToKg_def inToCm_def fsub_def number_eval)

lemma mean_default:
  "fdiv (fadd (mifflin_of profile_default) (revisedHarrisBenedict_of profile_default)) (lit 2)
     = Fin (8021707692082745 / 4398046511104)"
  by (simp add: mifflin_default revisedHarrisBenedict_default number_eval)

text \<open>
  C1. The output \<open>recommendedBmr\<close> is the rounded Katch-McArdle estimate
  \<open>370 + 21.6 * leanMassKg\<close> when \<open>bodyFatMode\<close> is known and the lean mass was
  resolved, and the rounded mean of the (unrounded) Mifflin-St Jeor and Revised
  Harris-Benedict estimates otherwise; in particular, with DEXA enabled, both masses
  supplied and \<open>bodyFatMode\<close> unknown, Katch-McArdle is computed and \<open>recommendedBmr\<close>
  is still the mean.
\<close>

theorem recommendedBmr_selection:
  "recommendedBmr (bmr (calculateAll p)) =
     (case snd (bodyComposition p) of
        Some lean \<Rightarrow>
          if bodyFatMode p = Known
          then round_js (fadd (lit 370) (fmul (lit (216 / 10)) lean))
          else round_js (fdiv (fadd (mifflin_of p) (revisedHarrisBenedict_of p)) (lit 2))
      | None \<Rightarrow> round_js (fdiv (fadd (mifflin_of p) (revisedHarrisBenedict_of p)) (lit 2)))
   \<and> (enabled (dexa p) \<and> fatMassKg (dexa p) = Some f \<and> leanMassKg (dexa p) = Some l
        \<and> bodyFatMode p = Unknown
      \<longrightarrow> katchMcArdle_of p = Some (fadd (lit 370) (fmul (lit (216 / 10)) l))
          \<and> recommendedBmr (bmr (calculateAll p)) =
              round_js (fdiv (fadd (mifflin_of p) (revisedHarrisBenedict_of p)) (lit 2)))"
proof -
  have sel: "recommendedBmr (bmr (calculateAll p)) =
     (case snd (bodyComposition p) of
        Some lean \<Rightarrow>
          if bodyFatMode p = Known
          then round_js (fadd (lit 370) (fmul (lit (216 / 10)) lean))
          else round_js (fdiv (fadd (mifflin_of p) (revisedHarrisBenedict_of p)) (lit 2))
      | None \<Rightarrow> round_js (fdiv (fadd (mifflin_of p) (revisedHarrisBenedict_of p)) (lit 2)))"
    by (simp add: calculateAll_recommendedBmr recommendedBmr_of_def katchMcArdle_of_def
          split: option.splits)
  have dexa: "katchMcArdle_of p = Some (fadd (lit 370) (fmul (lit (216 / 10)) l))
          \<and> recommendedBmr (bmr (calculateAll p)) =
              round_js (fdiv (fadd (mifflin_of p) (revisedHarrisBenedict_of p)) (lit 2))"
    if "enabled (dexa p)" "fatMassKg (dexa p) = Some f" "leanMassKg (dexa p) = Some l"
       "bodyFatMode p = Unknown"
  proof -
    from that have "bodyComposition p = (Some f, Some l)"
      by (simp add: bodyComposition_def)
    with that(4) show ?thesis
      by (simp add: calculateAll_recommendedBmr recommendedBmr_of_def katchMcArdle_of_def)
  qed
  from sel dexa show ?thesis by blast
qed

theorem recommendedBmr_selection_witness:
  "enabled (dexa profile_dexa_both) \<and> fatMassKg (dexa profile_dexa_both) = Some (Fin 16)
   \<and> leanMassKg (dexa profile_dexa_both) = Some (Fin 64)
   \<and> bodyFatMode profile_dexa_both = Unknown
   \<and> katchMcArdle_of profile_dexa_both = Some (fadd (lit 370) (fmul (lit (216 / 10)) (Fin 64)))
   \<and> recommendedBmr (bmr (calculateAll profile_dexa_both)) = Fin 1824"
proof -
  have hyp: "enabled (dexa profile_dexa_both) \<and> fatMassKg (dexa profile_dexa_both) = Some (Fin 16)
      \<and> leanMassKg (dexa profile_dexa_both) = Some (Fin 64)
      \<and> bodyFatMode profile_dexa_both = Unknown"
    by (simp add: profile_dexa_both_def profile_default_def)
  have m: "mifflin_of profile_dexa_both = mifflin_of profile_default"
    by (simp add: profile_dexa_both_def mifflin_of_def weightKg_of_def heightCm_of_def
          sexFactor_of_def)
  have r: "revisedHarrisBenedict_of profile_dexa_both = revisedHarrisBenedict_of profile_default"
    by (simp add: profile_dexa_both_def revisedHarrisBenedict_of_def weightKg_of_def
          heightCm_of_def)
  have mean: "round_js (fdiv (fadd (mifflin_of profile_dexa_both)
                             (revisedHarrisBenedict_of profile_dexa_both)) (lit 2)) = Fin 1824"
    by (simp add: m r mean_default)
  from hyp conjunct2 [OF recommendedBmr_selection [of profile_dexa_both "Fin 16" "Fin 64"]]
  have "katchMcArdle_of profile_dexa_both = Some (fadd (lit 370) (fmul (lit (216 / 10)) (Fin 64)))
      \<and> recommendedBmr (bmr (calculateAll profile_dexa_both)) =
          round_js (fdiv (fadd (mifflin_of profile_dexa_both)
                               (revisedHarrisBenedict_of profile_dexa_both)) (lit 2))"
    by (rule rev_mp)
  with hyp mean show ?thesis by simp
qed

text \<open>
  C9. The output \<open>tdee\<close> is \<open>round(recommendedBmr * m)\<close>, computed from the unrounded
  \<open>recommendedBmr\<close> (whose rounding is the output \<open>recommendedBmr\<close>), where \<open>m\<close> is
  \<open>activity.customMultiplier\<close> when \<open>activity.useCustom\<close> is true and
  \<open>activity.preset\<close> otherwise.
\<close>

theorem tdee_is_rounded_product:
  "tdee (calculateAll p) =
     round_js (fmul (recommendedBmr_of p)
                    (if useCustom (activity p) then to_number (customMultiplier (activity p))
                     else to_number (preset (activity p))))
   \<and> recommendedBmr (bmr (calculateAll p)) = round_js (recommendedBmr_of p)"
  by (simp add: calculateAll_tdee calculateAll_recommendedBmr tdee_of_def
        activityMultiplier_of_def)

section \<open>Body composition\<close>

lemma weightKg_default: "weightKg_of profile_default = Fin (5745370580184657 / 70368744177664)"
  by (simp add: profile_default_def weightKg_of_def lbToKg_def number_eval)

lemma valid_profile_dexa_lean_only: "valid_profile profile_dexa_lean_only"
  by (simp add: valid_profile_def profile_dexa_lean_only_def profile_default_def number_eval)

lemma bodyComposition_dexa_lean_only:
  "bodyComposition profile_dexa_lean_only = (None, Some (Fin 60))"
  by (simp add: bodyComposition_def profile_dexa_lean_only_def profile_default_def)

text \<open>
  With a known body fat, a DEXA scan whose fat mass is zero is overridden by the masses
  derived from the percentage: the test before the derivation is on truthiness.
\<close>

lemma bodyComposition_zero_dexa_overridden:
  "valid_profile profile_dexa_zero_fat_known
   \<and> spec_bodyComposition profile_dexa_zero_fat_known = (Some (Fin 0), Some (Fin 60))
   \<and> bodyComposition profile_dexa_zero_fat_known =
       (Some (Fin (2298148232073863 / 140737488355328)),
        Some (Fin (2298148232073863 / 35184372088832)))"
proof -
  have w: "weightKg_of profile_dexa_zero_fat_known = weightKg_of profile_default"
    by (simp add: profile_dexa_zero_fat_known_def profile_known_def weightKg_of_def)
  have "valid_profile profile_dexa_zero_fat_known"
    by (simp add: valid_profile_def profile_dexa_zero_fat_known_def profile_known_def
          profile_default_def number_eval)
  moreover have "spec_bodyComposition profile_dexa_zero_fat_known = (Some (Fin 0), Some (Fin 60))"
    by (simp add: spec_bodyComposition_def profile_dexa_zero_fat_known_def)
  moreover have "bodyComposition profile_dexa_zero_fat_known =
       (Some (fmul (weightKg_of profile_default) (fdiv (Fin 20) (lit 100))),
        Some (fsub (weightKg_of profile_default)
                (fmul (weightKg_of profile_default) (fdiv (Fin 20) (lit 100)))))"
    unfolding bodyComposition_def w
    by (simp add: profile_dexa_zero_fat_known_def profile_known_def Let_def)
  ultimately show ?thesis
    by (simp add: weightKg_default fsub_def number_eval)
qed

text \<open>
  C3, as the specification states it: DEXA when enabled with both masses present, else
  the known body-fat percentage, else both masses unresolved. It fails for a DEXA scan
  that supplies the lean mass only, with body fat unknown: the specification's order
  leaves both masses unresolved, the engine keeps the lean mass.
\<close>

theorem bodyComposition_spec_counterexample:
  "valid_profile profile_dexa_lean_only
   \<and> spec_bodyComposition profile_dexa_lean_only = (None, None)
   \<and> bodyComposition profile_dexa_lean_only = (None, Some (Fin 60))
   \<and> bodyComposition profile_dexa_lean_only \<noteq> spec_bodyComposition profile_dexa_lean_only"
proof -
  have "spec_bodyComposition profile_dexa_lean_only = (None, None)"
    by (simp add: spec_bodyComposition_def profile_dexa_lean_only_def profile_default_def)
  with valid_profile_dexa_lean_only bodyComposition_dexa_lean_only show ?thesis
    by simp
qed

text \<open>
  C3, amended. If DEXA is enabled and both of its masses are present and are nonzero
  numbers, they are the fat and lean mass. Otherwise, unless DEXA is enabled with both
  masses present, a known and present body-fat percentage gives
  \<open>fatMassKg = weightKg * (bodyFatPercent / 100)\<close> and
  \<open>leanMassKg = weightKg - fatMassKg\<close>. Whenever the percentage is not both known and
  present, the masses are the DEXA fields as supplied when DEXA is enabled (one of them
  may be absent while the other is kept) and both are unresolved when it is not.
\<close>

theorem bodyComposition_resolution:
  "(enabled (dexa p) \<and> fatMassKg (dexa p) = Some f \<and> leanMassKg (dexa p) = Some l
      \<and> truthy f \<and> truthy l
    \<longrightarrow> bodyComposition p = (Some f, Some l))
   \<and> (\<not> (enabled (dexa p) \<and> fatMassKg (dexa p) \<noteq> None \<and> leanMassKg (dexa p) \<noteq> None)
      \<and> bodyFatMode p = Known \<and> bodyFatPercent p = Some b
    \<longrightarrow> bodyComposition p =
          (Some (fmul (weightKg_of p) (fdiv b (lit 100))),
           Some (fsub (weightKg_of p) (fmul (weightKg_of p) (fdiv b (lit 100))))))
   \<and> (\<not> (bodyFatMode p = Known \<and> bodyFatPercent p \<noteq> None)
    \<longrightarrow> bodyComposition p =
          (if enabled (dexa p) then (fatMassKg (dexa p), leanMassKg (dexa p))
           else (None, None)))"
proof (intro conjI impI)
  assume "enabled (dexa p) \<and> fatMassKg (dexa p) = Some f \<and> leanMassKg (dexa p) = Some l
      \<and> truthy f \<and> truthy l"
  then show "bodyComposition p = (Some f, Some l)"
    by (simp add: bodyComposition_def)
next
  assume a: "\<not> (enabled (dexa p) \<and> fatMassKg (dexa p) \<noteq> None \<and> leanMassKg (dexa p) \<noteq> None)
      \<and> bodyFatMode p = Known \<and> bodyFatPercent p = Some b"
  then have "falsy_opt (fatMassKg (dexa p)) \<or> falsy_opt (leanMassKg (dexa p))
      \<or> \<not> enabled (dexa p)"
    by (cases "fatMassKg (dexa p)"; cases "leanMassKg (dexa p)") auto
  with a show "bodyComposition p =
          (Some (fmul (weightKg_of p) (fdiv b (lit 100))),
           Some (fsub (weightKg_of p) (fmul (weightKg_of p) (fdiv b (lit 100)))))"
    by (auto simp add: bodyComposition_def Let_def)
next
  assume "\<not> (bodyFatMode p = Known \<and> bodyFatPercent p \<noteq> None)"
  then show "bodyComposition p =
          (if enabled (dexa p) then (fatMassKg (dexa p), leanMassKg (dexa p))
           else (None, None))"
    by (auto simp add: bodyComposition_def Let_def)
qed

theorem bodyComposition_resolution_witness:
  "bodyComposition profile_dexa_both = (Some (Fin 16), Some (Fin 64))
   \<and> bodyComposition profile_known =
       (Some (Fin (2298148232073863 / 140737488355328)),
        Some (Fin (2298148232073863 / 35184372088832)))
   \<and> bodyComposition profile_dexa_lean_only = (None, Some (Fin 60))"
proof -
  let ?q = "profile_dexa_lean_only"
  have h1: "enabled (dexa profile_dexa_both) \<and> fatMassKg (dexa profile_dexa_both) = Some (Fin 16)
      \<and> leanMassKg (dexa profile_dexa_both) = Some (Fin 64) \<and> truthy (Fin 16) \<and> truthy (Fin 64)"
    by (simp add: profile_dexa_both_def)
  have h2: "\<not> (enabled (dexa profile_known) \<and> fatMassKg (dexa profile_known) \<noteq> None
        \<and> leanMassKg (dexa profile_known) \<noteq> None)
      \<and> bodyFatMode profile_known = Known \<and> bodyFatPercent profile_known = Some (Fin 20)"
    by (simp add: profile_known_def profile_default_def)
  have h3: "\<not> (bodyFatMode ?q = Known \<and> bodyFatPercent ?q \<noteq> None)"
    by (simp add: profile_dexa_lean_only_def profile_default_def)
  have w: "weightKg_of profile_known = weightKg_of profile_default"
    by (simp add: profile_known_def weightKg_of_def)
  note r = bodyComposition_resolution
  from h1 have c1: "bodyComposition profile_dexa_both = (Some (Fin 16), Some (Fin 64))"
    by (rule mp [OF conjunct1 [OF r]])
  from h2 have "bodyComposition profile_known =
       (Some (fmul (weightKg_of profile_known) (fdiv (Fin 20) (lit 100))),
        Some (fsub (weightKg_of profile_known)
                (fmul (weightKg_of profile_known) (fdiv (Fin 20) (lit 100)))))"
    by (rule mp [OF conjunct1 [OF conjunct2 [OF r]]])
  then have c2: "bodyComposition profile_known =
       (Some (Fin (2298148232073863 / 140737488355328)),
        Some (Fin (2298148232073863 / 35184372088832)))"
    by (simp add: w weightKg_default fsub_def number_eval)
  from h3 have "bodyComposition ?q =
       (if enabled (dexa ?q) then (fatMassKg (dexa ?q), leanMassKg (dexa ?q)) else (None, None))"
    by (rule mp [OF conjunct2 [OF conjunct2 [OF r [of ?q "Fin 0" "Fin 0" "Fin 0"]]]])
  then have c3: "bodyComposition ?q = (None, Some (Fin 60))"
    by (simp add: profile_dexa_lean_only_def)
  from c1 c2 c3 show ?thesis by simp
qed

section \<open>Presence of the BMR methods in the output\<close>

text \<open>
  What the result assembler does: Mifflin-St Jeor and Revised Harris-Benedict are always
  written; each of the other three is written exactly when it was computed and its
  unrounded value is truthy (neither zero nor NaN).
\<close>

lemma method_presence:
  "mifflin (methods (bmr (calculateAll p))) \<noteq> None"
  "revisedHarrisBenedict (methods (bmr (calculateAll p))) \<noteq> None"
  "(katchMcArdle (methods (bmr (calculateAll p))) \<noteq> None) =
     (case katchMcArdle_of p of Some v \<Rightarrow> truthy v | None \<Rightarrow> False)"
  "(nelson (methods (bmr (calculateAll p))) \<noteq> None) =
     (case nelson_of p of Some v \<Rightarrow> truthy v | None \<Rightarrow> False)"
  "(muller (methods (bmr (calculateAll p))) \<noteq> None) =
     (case muller_of p of Some v \<Rightarrow> truthy v | None \<Rightarrow> False)"
  by (simp_all add: calculateAll_methods round_if_truthy_def split: option.splits)

lemma lit_25_8: "lit (258 / 10) = Fin (7262054399134925 / 281474976710656)"
  by (simp add: number_eval)

lemma lit_4_04: "lit (404 / 100) = Fin (4548635623644201 / 1125899906842624)"
  by (simp add: number_eval)

lemma bodyComposition_dexa_cancel:
  "bodyComposition profile_dexa_cancel = (Some (fneg (lit (258 / 10))), Some (lit (404 / 100)))"
  by (simp add: bodyComposition_def profile_dexa_cancel_def profile_default_def)

lemma bodyComposition_dexa_zero:
  "bodyComposition profile_dexa_zero = (Some (Fin 0), Some (Fin 0))"
  by (simp add: bodyComposition_def profile_dexa_zero_def profile_default_def)

text \<open>
  C4, at two inputs. A DEXA scan with lean mass 4.04 kg and fat mass -25.8 kg passes
  the form's validation (one mass is positive); both masses are resolved and Nelson's
  formula is computed, with value 0, yet \<open>nelson\<close> is absent from the output while
  \<open>muller\<close> is present. The same happens for a scan reporting both masses as 0. The
  specification asks for \<open>nelson\<close> to be present whenever both masses were
  resolved, also with a computed value of 0.
\<close>

theorem nelson_absent_though_computed:
  "valid_profile profile_dexa_cancel
   \<and> bodyComposition profile_dexa_cancel = (Some (fneg (lit (258 / 10))), Some (lit (404 / 100)))
   \<and> nelson_of profile_dexa_cancel = Some (Fin 0)
   \<and> nelson (methods (bmr (calculateAll profile_dexa_cancel))) = None
   \<and> muller (methods (bmr (calculateAll profile_dexa_cancel))) = Some (Fin 5)
   \<and> bodyComposition profile_dexa_zero = (Some (Fin 0), Some (Fin 0))
   \<and> nelson_of profile_dexa_zero = Some (Fin 0)
   \<and> nelson (methods (bmr (calculateAll profile_dexa_zero))) = None
   \<and> muller (methods (bmr (calculateAll profile_dexa_zero))) = Some (Fin 198)
   \<and> katchMcArdle (methods (bmr (calculateAll profile_dexa_zero))) = Some (Fin 370)"
proof -
  have v: "valid_profile profile_dexa_cancel"
    by (simp add: valid_profile_def profile_dexa_cancel_def profile_default_def number_eval)
  have n1: "nelson_of profile_dexa_cancel = Some (Fin 0)"
    by (simp add: nelson_of_def bodyComposition_dexa_cancel lit_25_8 lit_4_04)
       (simp add: number_eval)
  have m1: "muller_of profile_dexa_cancel = Some (Fin (2680653328983 / 549755813888))"
    by (simp add: muller_of_def bodyComposition_dexa_cancel lit_25_8 lit_4_04)
       (simp add: number_eval)
  have n2: "nelson_of profile_dexa_zero = Some (Fin 0)"
    by (simp add: nelson_of_def bodyComposition_dexa_zero number_eval)
  have m2: "muller_of profile_dexa_zero = Some (Fin 198)"
    by (simp add: muller_of_def bodyComposition_dexa_zero number_eval)
  have k2: "katchMcArdle_of profile_dexa_zero = Some (Fin 370)"
    by (simp add: katchMcArdle_of_def bodyComposition_dexa_zero number_eval)
  show ?thesis
    by (simp add: v bodyComposition_dexa_cancel bodyComposition_dexa_zero n1 m1 n2 m2 k2
          calculateAll_methods round_if_truthy_def)
qed

section \<open>Missing scalars\<close>

lemma weight_NaN:
  assumes "weightKg_of p = NaN"
  shows "weightLb_of p = NaN" and "mifflin_of p = NaN" and "revisedHarrisBenedict_of p = NaN"
  using assms
  by (simp_all add: weightLb_of_def mifflin_of_def revisedHarrisBenedict_of_def)

lemma height_NaN:
  assumes "heightCm_of p = NaN"
  shows "mifflin_of p = NaN" and "revisedHarrisBenedict_of p = NaN"
  using assms by (simp_all add: mifflin_of_def revisedHarrisBenedict_of_def)

lemma weight_missing:
  assumes "unitSystem p = US \<and> lb (weight p) = None \<or> unitSystem p = Metric \<and> kg (weight p) = None"
  shows "weightKg_of p = NaN"
  using assms by (auto simp add: weightKg_of_def lbToKg_def)

lemma height_missing:
  assumes "unitSystem p = US \<and> inches (height p) = None
           \<or> unitSystem p = Metric \<and> cm (height p) = None"
  shows "heightCm_of p = NaN"
  using assms by (auto simp add: heightCm_of_def inToCm_def)

lemma activity_missing:
  assumes "preset (activity p) = None \<and> customMultiplier (activity p) = None"
  shows "tdee_of p = NaN"
  using assms by (simp add: tdee_of_def activityMultiplier_of_def)

lemma computeMacros_NaN:
  "calories (computeMacros NaN prot ff) = NaN"
  "proteinG (computeMacros cal NaN ff) = NaN"
  by (simp_all add: computeMacros_def)

text \<open>
  C7, as the specification states it: with the required weight absent the engine would
  fail and return no Results. It returns one, and its figures are NaN.
\<close>

theorem missing_weight_counterexample:
  "unitSystem profile_no_weight = US \<and> lb (weight profile_no_weight) = None
   \<and> proteinG (maintenance (calculateAll profile_no_weight)) = NaN
   \<and> tdee (calculateAll profile_no_weight) = NaN
   \<and> recommendedBmr (bmr (calculateAll profile_no_weight)) = NaN"
proof -
  have u: "unitSystem profile_no_weight = US \<and> lb (weight profile_no_weight) = None"
    by (simp add: profile_no_weight_def profile_default_def)
  then have w: "weightKg_of profile_no_weight = NaN"
    by (simp add: weight_missing)
  have "bodyComposition profile_no_weight = (None, None)"
    by (simp add: bodyComposition_def profile_no_weight_def profile_default_def)
  then have "recommendedBmr_of profile_no_weight = NaN"
    by (simp add: recommendedBmr_of_def katchMcArdle_of_def weight_NaN [OF w])
  with u show ?thesis
    by (simp add: calculateAll_maintenance makeMacros_fst computeMacros_NaN
          weight_NaN [OF w] calculateAll_tdee calculateAll_recommendedBmr tdee_of_def)
qed

text \<open>
  C7, amended. \<open>calculateAll\<close> raises no error and always returns a full Results
  value. When the active unit system's weight is absent, the four \<open>proteinG\<close> figures
  and the Mifflin-St Jeor and Revised Harris-Benedict values are NaN; when its height
  is absent, these two BMR values are NaN; when neither activity source is populated,
  \<open>tdee\<close> and the four \<open>calories\<close> figures are NaN.
\<close>

theorem missing_scalar_yields_NaN:
  "(unitSystem p = US \<and> lb (weight p) = None \<or> unitSystem p = Metric \<and> kg (weight p) = None
    \<longrightarrow> proteinG (maintenance (calculateAll p)) = NaN
        \<and> proteinG (cut (calculateAll p)) = NaN
        \<and> proteinG (recomp (calculateAll p)) = NaN
        \<and> proteinG (bulk (calculateAll p)) = NaN
        \<and> mifflin (methods (bmr (calculateAll p))) = Some NaN
        \<and> revisedHarrisBenedict (methods (bmr (calculateAll p))) = Some NaN)
   \<and> (unitSystem p = US \<and> inches (height p) = None
      \<or> unitSystem p = Metric \<and> cm (height p) = None
    \<longrightarrow> mifflin (methods (bmr (calculateAll p))) = Some NaN
        \<and> revisedHarrisBenedict (methods (bmr (calculateAll p))) = Some NaN)
   \<and> (preset (activity p) = None \<and> customMultiplier (activity p) = None
    \<longrightarrow> tdee (calculateAll p) = NaN
        \<and> calories (maintenance (calculateAll p)) = NaN
        \<and> calories (cut (calculateAll p)) = NaN
        \<and> calories (recomp (calculateAll p)) = NaN
        \<and> calories (bulk (calculateAll p)) = NaN)"
proof (intro conjI impI)
  assume a: "unitSystem p = US \<and> lb (weight p) = None
             \<or> unitSystem p = Metric \<and> kg (weight p) = None"
  note w = weight_NaN [OF weight_missing [OF a]]
  show "proteinG (maintenance (calculateAll p)) = NaN"
    by (simp add: calculateAll_maintenance makeMacros_fst computeMacros_NaN w)
  show "proteinG (cut (calculateAll p)) = NaN"
    by (simp add: calculateAll_cut computeMacros_NaN w)
  show "proteinG (recomp (calculateAll p)) = NaN"
    by (simp add: calculateAll_recomp computeMacros_NaN w)
  show "proteinG (bulk (calculateAll p)) = NaN"
    by (simp add: calculateAll_bulk computeMacros_NaN w)
  show "mifflin (methods (bmr (calculateAll p))) = Some NaN"
    by (simp add: calculateAll_methods w)
  show "revisedHarrisBenedict (methods (bmr (calculateAll p))) = Some NaN"
    by (simp add: calculateAll_methods w)
next
  assume a: "unitSystem p = US \<and> inches (height p) = None
             \<or> unitSystem p = Metric \<and> cm (height p) = None"
  note h = height_NaN [OF height_missing [OF a]]
  show "mifflin (methods (bmr (calculateAll p))) = Some NaN"
    by (simp add: calculateAll_methods h)
  show "revisedHarrisBenedict (methods (bmr (calculateAll p))) = Some NaN"
    by (simp add: calculateAll_methods h)
next
  assume a: "preset (activity p) = None \<and> customMultiplier (activity p) = None"
  note t = activity_missing [OF a]
  show "tdee (calculateAll p) = NaN"
    by (simp add: calculateAll_tdee t)
  show "calories (maintenance (calculateAll p)) = NaN"
    by (simp add: calculateAll_maintenance makeMacros_fst computeMacros_NaN t)
  show "calories (cut (calculateAll p)) = NaN"
    by (simp add: calculateAll_cut computeMacros_NaN t)
  show "calories (recomp (calculateAll p)) = NaN"
    by (simp add: calculateAll_recomp computeMacros_NaN t)
  show "calories (bulk (calculateAll p)) = NaN"
    by (simp add: calculateAll_bulk computeMacros_NaN t)
qed

theorem missing_scalar_yields_NaN_witness:
  "lb (weight profile_no_weight) = None
   \<and> proteinG (bulk (calculateAll profile_no_weight)) = NaN
   \<and> inches (height profile_no_height) = None
   \<and> mifflin (methods (bmr (calculateAll profile_no_height))) = Some NaN
   \<and> preset (activity profile_no_activity) = None
   \<and> customMultiplier (activity profile_no_activity) = None
   \<and> tdee (calculateAll profile_no_activity) = NaN"
proof -
  note r = missing_scalar_yields_NaN
  have h1: "unitSystem profile_no_weight = US \<and> lb (weight profile_no_weight) = None
            \<or> unitSystem profile_no_weight = Metric \<and> kg (weight profile_no_weight) = None"
    by (simp add: profile_no_weight_def profile_default_def)
  have h2: "unitSystem profile_no_height = US \<and> inches (height profile_no_height) = None
            \<or> unitSystem profile_no_height = Metric \<and> cm (height profile_no_height) = None"
    by (simp add: profile_no_height_def profile_default_def)
  have h3: "preset (activity profile_no_activity) = None
            \<and> customMultiplier (activity profile_no_activity) = None"
    by (simp add: profile_no_activity_def)
  from mp [OF conjunct1 [OF r] h1]
  have c1: "proteinG (bulk (calculateAll profile_no_weight)) = NaN" by simp
  from mp [OF conjunct1 [OF conjunct2 [OF r]] h2]
  have c2: "mifflin (methods (bmr (calculateAll profile_no_height))) = Some NaN" by simp
  from mp [OF conjunct2 [OF conjunct2 [OF r]] h3]
  have c3: "tdee (calculateAll profile_no_activity) = NaN" by simp
  from c1 c2 c3 h3 show ?thesis
    by (simp add: profile_no_weight_def profile_no_height_def)
qed

section \<open>Unit conversion\<close>

subsection \<open>The error of one rounding\<close>

lemma rne_close: "\<bar>of_int (rne x) - x\<bar> \<le> 1 / 2"
proof -
  have "of_int \<lfloor>x\<rfloor> \<le> x" "x < of_int \<lfloor>x\<rfloor> + 1"
    by linarith+
  then show ?thesis
    by (auto simp add: rne_def Let_def)
qed

lemma pow2_powi: "pow2 e = 2 powi e"
  by (simp add: pow2_def power_int_def power_inverse inverse_eq_divide power_one_over)

lemma pow2_pos: "0 < pow2 e"
  by (simp add: pow2_def)

lemma pow2_split: "pow2 e = pow2 (e - 52) * 2 ^ 52"
proof -
  have "(2::rat) powi e = 2 powi ((e - 52) + 52)" by simp
  also have "\<dots> = 2 powi (e - 52) * 2 powi 52"
    by (rule power_int_add) simp
  finally show ?thesis by (simp add: pow2_powi)
qed

lemma ilog2_bounds:
  assumes "1 \<le> q"
  shows "0 \<le> ilog2 q" and "pow2 (ilog2 q) \<le> q" and "q < 2 * pow2 (ilog2 q)"
proof -
  let ?n = "nat \<lfloor>q\<rfloor>"
  let ?k = "floorlog 2 ?n"
  from assms have n: "0 < ?n" by simp
  from floorlog_bounds [OF n, of 2]
  have b: "2 ^ (?k - 1) \<le> ?n" "?n < 2 ^ ?k" by simp_all
  from n have k: "0 < ?k" by (simp add: floorlog_eq_zero_iff[THEN iffD1] floorlog_def)
  have e: "ilog2 q = int ?k - 1" using assms by (simp add: ilog2_def)
  from k show "0 \<le> ilog2 q" by (simp add: e)
  have nn: "nat (int ?k - 1) = ?k - 1" by simp
  have p: "pow2 (ilog2 q) = 2 ^ (?k - 1)"
    using k by (simp add: e pow2_def nn)
  have "(of_nat (2 ^ (?k - 1)) :: rat) \<le> of_nat ?n" using b(1) by (simp only: of_nat_le_iff)
  also have "\<dots> = of_int \<lfloor>q\<rfloor>" using assms by simp
  also have "\<dots> \<le> q" by simp
  finally show "pow2 (ilog2 q) \<le> q" by (simp add: p)
  have "\<lfloor>q\<rfloor> < 2 ^ ?k" using b(2) assms
    by (metis nat_less_iff of_nat_numeral of_nat_power zero_le_floor zero_le_one order_trans)
  then have "q < 2 ^ ?k" 
    by (metis floor_less_iff of_int_numeral of_int_power)
  also have "(2::rat) ^ ?k = 2 * 2 ^ (?k - 1)" using k
    by (metis power_eq_if less_numeral_extra(3))
  finally show "q < 2 * pow2 (ilog2 q)" by (simp add: p)
qed


lemma round64_rel:
  assumes "1 \<le> q" and "q < 2 ^ 1023"
  shows "\<exists>r. round64 q = Fin r \<and> \<bar>r - q\<bar> \<le> q / 2 ^ 53"
proof -
  define e where "e = ilog2 q"
  define u where "u = pow2 (e - 52)"
  define m where "m = q / u"
  define r where "r = of_int (rne m) * u"
  from ilog2_bounds [OF assms(1)]
  have e0: "0 \<le> e" and lo: "pow2 e \<le> q" by (simp_all add: e_def)
  have upos: "0 < u" by (simp add: u_def pow2_pos)
  have eu: "pow2 e = u * 2 ^ 52" unfolding u_def by (rule pow2_split)
  have qm: "q = m * u" using upos by (simp add: m_def)
  have "r - q = (of_int (rne m) - m) * u"
    by (simp add: r_def qm algebra_simps)
  then have "\<bar>r - q\<bar> = \<bar>of_int (rne m) - m\<bar> * u"
    using upos by (simp add: abs_mult)
  also have "\<dots> \<le> (1 / 2) * u"
    using rne_close [of m] upos by (intro mult_right_mono) simp_all
  also have "\<dots> = pow2 e / 2 ^ 53" by (simp add: eu)
  also have "\<dots> \<le> q / 2 ^ 53" using lo by (simp add: divide_right_mono)
  finally have close: "\<bar>r - q\<bar> \<le> q / 2 ^ 53" .
  have "q / 2 ^ 53 \<le> q" using assms(1) by (simp add: field_simps)
  with close have "r \<le> 2 * q" by linarith
  also have "\<dots> < 2 * 2 ^ 1023" using assms(2) by simp
  finally have "r < pow2 1024" by (simp add: pow2_def)
  moreover have "max (ilog2 \<bar>q\<bar>) (- 1022) = e" using e0 assms(1) by (simp add: e_def)
  ultimately have "round64 q = Fin r"
    using assms(1) by (simp add: round64_def Let_def r_def m_def u_def)
  with close show ?thesis by blast
qed

lemma lit_lb: "lit (45359237 / 100000000) = Fin (8171193714040401 / 18014398509481984)"
  by (simp add: number_eval)

lemma lit_one: "lit 1 = Fin 1"
  by (simp add: number_eval)

lemma pounds_roundtrip:
  assumes "3 \<le> x" and "x \<le> 2 ^ 50"
  shows "\<exists>w v. fdiv (lbToKg (Fin x)) (lit (45359237 / 100000000)) = Fin w
            \<and> \<bar>w - x\<bar> \<le> x / 2 ^ 51
            \<and> fmul (Fin w) (lit 1) = Fin v \<and> \<bar>v - x\<bar> \<le> x / 2 ^ 51"
proof -
  define c :: rat where "c = 8171193714040401 / 18014398509481984"
  have big: "(2::rat) ^ 52 < 2 ^ 1023" by (rule power_strict_increasing) simp_all
  have x50: "x \<le> 1125899906842624" using assms(2) by simp
  have p52: "(2::rat) ^ 52 = 4503599627370496" by simp
  have rel: "\<exists>r. round64 q = Fin r \<and> q - q / 9007199254740992 \<le> r
               \<and> r \<le> q + q / 9007199254740992"
    if "1 \<le> q" "q < 4503599627370496" for q
  proof -
    from that(2) have "q < 2 ^ 52" by (simp only: p52)
    then have "q < 2 ^ 1023" using big by (rule less_trans)
    from round64_rel [OF that(1) this] obtain r where
      "round64 q = Fin r" "\<bar>r - q\<bar> \<le> q / 2 ^ 53" by blast
    then have "round64 q = Fin r" "\<bar>r - q\<bar> \<le> q / 9007199254740992" by simp_all
    then have "round64 q = Fin r \<and> q - q / 9007199254740992 \<le> r
               \<and> r \<le> q + q / 9007199254740992" by linarith
    then show ?thesis by blast
  qed
  define b where "b = x * c"
  have "1 \<le> b" "b < 4503599627370496"
    using assms(1) x50 unfolding b_def c_def by linarith+
  from rel [OF this] obtain a where
    a: "round64 b = Fin a" "b - b / 9007199254740992 \<le> a" "a \<le> b + b / 9007199254740992"
    by blast
  define t where "t = a / c"
  have cpos: "0 < c" by (simp add: c_def)
  have tb: "t * c = a" "x * c = b" using cpos by (simp_all add: t_def b_def)
  define d :: rat where "d = 1 / 9007199254740992"
  have "x * c - x * c * d \<le> a" "a \<le> x * c + x * c * d"
    using a(2,3) by (simp_all add: b_def d_def)
  then have "x - x * d \<le> a / c" "a / c \<le> x + x * d"
    by (simp_all add: c_def field_simps)
  then have t1: "x - x / 9007199254740992 \<le> t" and t2: "t \<le> x + x / 9007199254740992"
    by (simp_all add: t_def d_def)
  have "1 \<le> t" "t < 4503599627370496"
    using t1 t2 assms(1) x50 by linarith+
  from rel [OF this] obtain w where
    w: "round64 t = Fin w" "t - t / 9007199254740992 \<le> w" "w \<le> t + t / 9007199254740992"
    by blast
  have wx1: "x - x / 2251799813685248 \<le> w"
    using t1 w(2) assms(1) by linarith
  have wx2: "w \<le> x + x / 2251799813685248"
    using t2 w(3) assms(1) by linarith
  have "1 \<le> w" "w < 4503599627370496"
    using wx1 wx2 assms(1) x50 by linarith+
  from rel [OF this] obtain v where
    v: "round64 w = Fin v" "w - w / 9007199254740992 \<le> v" "v \<le> w + w / 9007199254740992"
    by blast
  have vx1: "x - x / 2251799813685248 \<le> v"
    using t1 w(2) v(2) assms(1) by linarith
  have vx2: "v \<le> x + x / 2251799813685248"
    using t2 w(3) v(3) assms(1) by linarith
  have "c \<noteq> 0" by (simp add: c_def)
  then have "fdiv (lbToKg (Fin x)) (lit (45359237 / 100000000)) = Fin w"
    using a(1) w(1) by (simp add: lbToKg_def lit_lb c_def [symmetric] b_def t_def)
  moreover have "fmul (Fin w) (lit 1) = Fin v"
    using v(1) by (simp add: lit_one)
  moreover have "\<bar>w - x\<bar> \<le> x / 2251799813685248" using wx1 wx2 by linarith
  moreover have "\<bar>v - x\<bar> \<le> x / 2251799813685248" using vx1 vx2 by linarith
  moreover have "x / 2 ^ 51 = x / 2251799813685248" by simp
  ultimately show ?thesis by (simp only:) blast
qed

subsection \<open>Fields of the other unit system\<close>

lemma calculateAll_cong:
  assumes "weightKg_of q = weightKg_of p" and "heightCm_of q = heightCm_of p"
    and "sex q = sex p" and "ageYears q = ageYears p"
    and "bodyFatMode q = bodyFatMode p" and "bodyFatPercent q = bodyFatPercent p"
    and "activity q = activity p" and "deltas q = deltas p"
    and "bulkProteinGPerLb q = bulkProteinGPerLb p" and "dexa q = dexa p"
  shows "calculateAll q = calculateAll p"
proof -
  have b: "bodyComposition q = bodyComposition p"
    by (simp only: bodyComposition_def assms)
  have m: "mifflin_of q = mifflin_of p"
    by (simp only: mifflin_of_def sexFactor_of_def assms)
  have h: "revisedHarrisBenedict_of q = revisedHarrisBenedict_of p"
    by (simp only: revisedHarrisBenedict_of_def assms)
  have k: "katchMcArdle_of q = katchMcArdle_of p"
    by (simp only: katchMcArdle_of_def b)
  have r: "recommendedBmr_of q = recommendedBmr_of p"
    by (simp only: recommendedBmr_of_def k m h assms)
  have t: "tdee_of q = tdee_of p"
    by (simp only: tdee_of_def activityMultiplier_of_def r assms)
  have l: "weightLb_of q = weightLb_of p"
    by (simp only: weightLb_of_def assms)
  have n: "nelson_of q = nelson_of p" "muller_of q = muller_of p"
    by (simp_all only: nelson_of_def muller_of_def b)
  show ?thesis
    by (simp only: calculateAll_def m h k r t l n assms)
qed

lemma other_unit_fields_ignored:
  "unitSystem p = US \<Longrightarrow>
     calculateAll (p\<lparr>weight := (weight p)\<lparr>kg := k\<rparr>, height := (height p)\<lparr>cm := h\<rparr>\<rparr>)
       = calculateAll p"
  "unitSystem p = Metric \<Longrightarrow>
     calculateAll (p\<lparr>weight := (weight p)\<lparr>lb := k\<rparr>, height := (height p)\<lparr>inches := h\<rparr>\<rparr>)
       = calculateAll p"
  by (rule calculateAll_cong; simp add: weightKg_of_def heightCm_of_def)+

lemma valid_profile_114_5_lb: "valid_profile profile_114_5_lb"
  by (simp add: valid_profile_def profile_114_5_lb_def profile_default_def number_eval)

lemma weightLb_114_5_lb:
  "weightLb_of profile_114_5_lb = Fin (8057221208342527 / 70368744177664)"
  by (simp add: weightLb_of_def weightKg_of_def lbToKg_def profile_114_5_lb_def
        profile_default_def lit_lb)
     (simp add: number_eval)

text \<open>
  C10, as the specification states it: for a US profile the maintenance \<open>proteinG\<close>
  would be \<open>round(lb * 1.0)\<close>. At 114.5 lb the pounds recomputed from the kilograms
  are \<open>114.49999999999999\<close> (the binary64 value below 114.5), so \<open>proteinG\<close> is 114,
  while \<open>round(114.5 * 1.0)\<close> is 115.
\<close>

theorem proteinG_roundtrip_counterexample:
  "valid_profile profile_114_5_lb
   \<and> unitSystem profile_114_5_lb = US
   \<and> lb (weight profile_114_5_lb) = Some (Fin (229 / 2))
   \<and> weightLb_of profile_114_5_lb = Fin (8057221208342527 / 70368744177664)
   \<and> proteinG (maintenance (calculateAll profile_114_5_lb)) = Fin 114
   \<and> round_js (fmul (Fin (229 / 2)) (lit 1)) = Fin 115"
proof -
  have "proteinG (maintenance (calculateAll profile_114_5_lb)) = Fin 114"
    by (simp add: calculateAll_maintenance makeMacros_fst computeMacros_def
          weightLb_114_5_lb lit_one)
       (simp add: number_eval)
  moreover have "round_js (fmul (Fin (229 / 2)) (lit 1)) = Fin 115"
    by (simp add: lit_one) (simp add: number_eval)
  moreover have "unitSystem profile_114_5_lb = US
      \<and> lb (weight profile_114_5_lb) = Some (Fin (229 / 2))"
    by (simp add: profile_114_5_lb_def profile_default_def)
  ultimately show ?thesis
    using valid_profile_114_5_lb weightLb_114_5_lb by simp
qed

text \<open>
  C10, amended. Unit conversion uses the fixed factors 0.45359237 (kg per lb) and 2.54
  (cm per inch) on the fields of the selected unit system, and the fields of the other
  system are ignored. For a US profile the derived \<open>weightLb\<close>, computed as
  \<open>lbToKg(lb) / 0.45359237\<close>, equals the input pounds only up to floating-point
  tolerance: for \<open>3 \<le> lb \<le> 2^50\<close> it differs from \<open>lb\<close> by at most
  \<open>lb / 2^51\<close>. The maintenance \<open>proteinG\<close> is the rounding of that derived value
  times 1.0, and differs from the rounding of the input pounds by at most 1.
\<close>

theorem unit_conversion_roundtrip:
  "weightKg_of p =
     (if unitSystem p = US
      then fmul (to_number (lb (weight p))) (lit (45359237 / 100000000))
      else to_number (kg (weight p)))
   \<and> heightCm_of p =
     (if unitSystem p = US then fmul (to_number (inches (height p))) (lit (254 / 100))
      else to_number (cm (height p)))
   \<and> weightLb_of p = fdiv (weightKg_of p) (lit (45359237 / 100000000))
   \<and> proteinG (maintenance (calculateAll p)) = round_js (fmul (weightLb_of p) (lit 1))
   \<and> (unitSystem p = US
      \<longrightarrow> calculateAll (p\<lparr>weight := (weight p)\<lparr>kg := k\<rparr>, height := (height p)\<lparr>cm := h\<rparr>\<rparr>)
            = calculateAll p)
   \<and> (unitSystem p = Metric
      \<longrightarrow> calculateAll (p\<lparr>weight := (weight p)\<lparr>lb := k\<rparr>,
                            height := (height p)\<lparr>inches := h\<rparr>\<rparr>)
            = calculateAll p)
   \<and> (unitSystem p = US \<and> lb (weight p) = Some (Fin x) \<and> 3 \<le> x \<and> x \<le> 2 ^ 50
      \<longrightarrow> (\<exists>w n. weightLb_of p = Fin w \<and> \<bar>w - x\<bar> \<le> x / 2 ^ 51
                  \<and> proteinG (maintenance (calculateAll p)) = Fin (of_int n)
                  \<and> \<bar>n - \<lfloor>x + 1 / 2\<rfloor>\<bar> \<le> 1))"
proof -
  have pg: "proteinG (maintenance (calculateAll p)) = round_js (fmul (weightLb_of p) (lit 1))"
    by (simp add: calculateAll_maintenance makeMacros_fst computeMacros_def)
  have tol: "\<exists>w n. weightLb_of p = Fin w \<and> \<bar>w - x\<bar> \<le> x / 2 ^ 51
                  \<and> proteinG (maintenance (calculateAll p)) = Fin (of_int n)
                  \<and> \<bar>n - \<lfloor>x + 1 / 2\<rfloor>\<bar> \<le> 1"
    if a: "unitSystem p = US \<and> lb (weight p) = Some (Fin x) \<and> 3 \<le> x \<and> x \<le> 2 ^ 50"
  proof -
    from a have x: "3 \<le> x" "x \<le> 2 ^ 50" by simp_all
    from pounds_roundtrip [OF x] obtain w v where
      wv: "fdiv (lbToKg (Fin x)) (lit (45359237 / 100000000)) = Fin w"
          "\<bar>w - x\<bar> \<le> x / 2 ^ 51" "fmul (Fin w) (lit 1) = Fin v" "\<bar>v - x\<bar> \<le> x / 2 ^ 51"
      by blast
    from a wv(1) have wl: "weightLb_of p = Fin w"
      by (simp add: weightLb_of_def weightKg_of_def)
    define n where "n = \<lfloor>v + 1 / 2\<rfloor>"
    have pn: "proteinG (maintenance (calculateAll p)) = Fin (of_int n)"
      by (simp add: pg wl wv(3) n_def)
    have "x / 2 ^ 51 \<le> 1 / 2" using x(2) by simp
    with wv(4) have vx: "\<bar>v - x\<bar> \<le> 1 / 2" by linarith
    define m where "m = \<lfloor>x + 1 / 2\<rfloor>"
    have fn: "of_int n \<le> v + 1 / 2" "v + 1 / 2 < of_int n + 1"
      unfolding n_def by linarith+
    have fm: "of_int m \<le> x + 1 / 2" "x + 1 / 2 < of_int m + 1"
      unfolding m_def by linarith+
    from fn fm vx have "(of_int n :: rat) < of_int m + 2" "(of_int m :: rat) < of_int n + 2"
      by linarith+
    then have "(of_int n :: rat) < of_int (m + 2)" "(of_int m :: rat) < of_int (n + 2)"
      by simp_all
    then have "n < m + 2" "m < n + 2"
      by (simp_all only: of_int_less_iff)
    then have "\<bar>n - \<lfloor>x + 1 / 2\<rfloor>\<bar> \<le> 1" unfolding m_def by linarith
    with wl wv(2) pn show ?thesis by blast
  qed
  have wk: "weightKg_of p =
     (if unitSystem p = US
      then fmul (to_number (lb (weight p))) (lit (45359237 / 100000000))
      else to_number (kg (weight p)))"
    by (simp add: weightKg_of_def lbToKg_def)
  have hc: "heightCm_of p =
     (if unitSystem p = US then fmul (to_number (inches (height p))) (lit (254 / 100))
      else to_number (cm (height p)))"
    by (simp add: heightCm_of_def inToCm_def)
  have wl: "weightLb_of p = fdiv (weightKg_of p) (lit (45359237 / 100000000))"
    by (rule weightLb_of_def)
  note ig = other_unit_fields_ignored [where p = p and k = k and h = h]
  from wk hc wl pg tol ig show ?thesis by blast
qed

theorem unit_conversion_roundtrip_witness:
  "unitSystem profile_default = US \<and> lb (weight profile_default) = Some (Fin 180)
   \<and> (\<exists>w n. weightLb_of profile_default = Fin w \<and> \<bar>w - 180\<bar> \<le> 180 / 2 ^ 51
          \<and> proteinG (maintenance (calculateAll profile_default)) = Fin (of_int n)
          \<and> \<bar>n - 180\<bar> \<le> 1)
   \<and> calculateAll (profile_default\<lparr>weight := (weight profile_default)\<lparr>kg := Some (Fin 1)\<rparr>,
                                    height := (height profile_default)\<lparr>cm := Some (Fin 2)\<rparr>\<rparr>)
       = calculateAll profile_default"
proof -
  note r = unit_conversion_roundtrip [where p = profile_default and x = 180
      and k = "Some (Fin 1)" and h = "Some (Fin 2)"]
  have u: "unitSystem profile_default = US"
    by (simp add: profile_default_def)
  have l: "lb (weight profile_default) = Some (Fin 180)"
    by (simp add: profile_default_def)
  have x: "(3::rat) \<le> 180" "(180::rat) \<le> 2 ^ 50"
    by simp_all
  have f: "\<lfloor>(180::rat) + 1 / 2\<rfloor> = 180"
    by simp
  from r u l x have "\<exists>w n. weightLb_of profile_default = Fin w \<and> \<bar>w - 180\<bar> \<le> 180 / 2 ^ 51
          \<and> proteinG (maintenance (calculateAll profile_default)) = Fin (of_int n)
          \<and> \<bar>n - \<lfloor>(180::rat) + 1 / 2\<rfloor>\<bar> \<le> 1"
    by blast
  then have e: "\<exists>w n. weightLb_of profile_default = Fin w \<and> \<bar>w - 180\<bar> \<le> 180 / 2 ^ 51
          \<and> proteinG (maintenance (calculateAll profile_default)) = Fin (of_int n)
          \<and> \<bar>n - 180\<bar> \<le> 1"
    unfolding f .
  from r u have i: "calculateAll (profile_default\<lparr>weight := (weight profile_default)\<lparr>kg := Some (Fin 1)\<rparr>,
                                    height := (height profile_default)\<lparr>cm := Some (Fin 2)\<rparr>\<rparr>)
       = calculateAll profile_default"
    by blast
  from u l e i show ?thesis by blast
qed

section \<open>Worked examples\<close>

text \<open>
  The form's default profile: Mifflin-St Jeor 1783, Revised Harris-Benedict 1865, their
  mean 1824 as recommended BMR, TDEE 2827, maintenance protein 180 g, no warning.
\<close>

lemma weightLb_default: "weightLb_of profile_default = Fin 180"
  by (simp add: weightLb_of_def weightKg_default lit_lb) (simp add: number_eval)

lemma bodyComposition_default: "bodyComposition profile_default = (None, None)"
  by (simp add: bodyComposition_def profile_default_def)

lemma recommendedBmr_default:
  "recommendedBmr_of profile_default = Fin (8021707692082745 / 4398046511104)"
  by (simp add: recommendedBmr_of_def katchMcArdle_of_def bodyComposition_default mean_default)

lemma tdee_default: "tdee_of profile_default = Fin (194275733167629 / 68719476736)"
proof -
  have "activityMultiplier_of profile_default = lit (155 / 100)"
    by (simp add: activityMultiplier_of_def profile_default_def)
  then show ?thesis
    by (simp add: tdee_of_def recommendedBmr_default) (simp add: number_eval)
qed

lemma scenario_default:
  "recommendedBmr (bmr (calculateAll profile_default)) = Fin 1824"
  "methods (bmr (calculateAll profile_default)) =
     \<lparr>mifflin = Some (Fin 1783), revisedHarrisBenedict = Some (Fin 1865),
      katchMcArdle = None, nelson = None, muller = None\<rparr>"
  "tdee (calculateAll profile_default) = Fin 2827"
  "maintenance (calculateAll profile_default) =
     \<lparr>calories = Fin 2827, proteinG = Fin 180, fatG = Fin 79, carbsG = Fin 350\<rparr>"
  "warnings (calculateAll profile_default) = []"
proof -
  show "recommendedBmr (bmr (calculateAll profile_default)) = Fin 1824"
    by (simp add: calculateAll_recommendedBmr recommendedBmr_default)
  show "methods (bmr (calculateAll profile_default)) =
     \<lparr>mifflin = Some (Fin 1783), revisedHarrisBenedict = Some (Fin 1865),
      katchMcArdle = None, nelson = None, muller = None\<rparr>"
    by (simp add: calculateAll_methods mifflin_default revisedHarrisBenedict_default
          katchMcArdle_of_def nelson_of_def muller_of_def bodyComposition_default
          round_if_truthy_def)
  show "tdee (calculateAll profile_default) = Fin 2827"
    by (simp add: calculateAll_tdee tdee_default)
  show "maintenance (calculateAll profile_default) =
     \<lparr>calories = Fin 2827, proteinG = Fin 180, fatG = Fin 79, carbsG = Fin 350\<rparr>"
    by (simp add: calculateAll_maintenance makeMacros_fst computeMacros_def tdee_default
          weightLb_default lit_one fsub_def)
       (simp add: number_eval)
  have d: "deltas profile_default =
      \<lparr>Deltas.cut = Fin (- 500), Deltas.bulk = Fin 500, Deltas.recomp = Fin (- 200)\<rparr>"
    by (simp add: profile_default_def)
  show "warnings (calculateAll profile_default) = []"
    by (simp add: calculateAll_warnings goal_table_def fatG_raw_def tdee_default d)
       (simp add: number_eval)
qed

text \<open>
  The same profile with a known body fat of 20 percent: Katch-McArdle is computed from
  the derived lean mass and becomes the recommended BMR; Nelson and Muller are present.
\<close>

lemma scenario_known:
  "recommendedBmr (bmr (calculateAll profile_known)) = Fin 1781"
  "katchMcArdle (methods (bmr (calculateAll profile_known))) = Some (Fin 1781)"
  "nelson (methods (bmr (calculateAll profile_known))) = Some (Fin 1751)"
  "muller (methods (bmr (calculateAll profile_known))) = Some (Fin 1242)"
proof -
  have w: "weightKg_of profile_known = weightKg_of profile_default"
    by (simp add: profile_known_def weightKg_of_def)
  have "bodyComposition profile_known =
       (Some (fmul (weightKg_of profile_default) (fdiv (Fin 20) (lit 100))),
        Some (fsub (weightKg_of profile_default)
                (fmul (weightKg_of profile_default) (fdiv (Fin 20) (lit 100)))))"
    unfolding bodyComposition_def w
    by (simp add: profile_known_def profile_default_def Let_def)
  then have b: "bodyComposition profile_known =
       (Some (Fin (2298148232073863 / 140737488355328)),
        Some (Fin (2298148232073863 / 35184372088832)))"
    by (simp add: weightKg_default fsub_def number_eval)
  have k: "katchMcArdle_of profile_known = Some (Fin (7832277435707911 / 4398046511104))"
    by (simp add: katchMcArdle_of_def b) (simp add: number_eval)
  have n: "nelson_of profile_known = Some (Fin (7701669262737533 / 4398046511104))"
    by (simp add: nelson_of_def b) (simp add: number_eval)
  have m: "muller_of profile_known = Some (Fin (2732154402594239 / 2199023255552))"
    by (simp add: muller_of_def b) (simp add: number_eval)
  have mode: "bodyFatMode profile_known = Known"
    by (simp add: profile_known_def)
  show "recommendedBmr (bmr (calculateAll profile_known)) = Fin 1781"
    by (simp add: calculateAll_recommendedBmr recommendedBmr_of_def k mode)
  show "katchMcArdle (methods (bmr (calculateAll profile_known))) = Some (Fin 1781)"
    by (simp add: calculateAll_methods round_if_truthy_def k)
  show "nelson (methods (bmr (calculateAll profile_known))) = Some (Fin 1751)"
    by (simp add: calculateAll_methods round_if_truthy_def n)
  show "muller (methods (bmr (calculateAll profile_known))) = Some (Fin 1242)"
    by (simp add: calculateAll_methods round_if_truthy_def m)
qed

end
